theory Spec2Isabelle
  imports Complex_Main "HOL-Library.AList"
begin

section \<open>Text helpers\<close>

text \<open>
  Python strings are modelled as \<^typ>\<open>string\<close>. Only the character tests the backend relies on
  are needed: ASCII lower-casing, white space as \<open>str.strip\<close> and \<open>float\<close> see it (within the
  8-bit range), decimal digits, and the substring test \<open>kw in s\<close>.
\<close>

definition lower_char :: "char \<Rightarrow> char" where
  "lower_char c =
     (case map_of (zip ''ABCDEFGHIJKLMNOPQRSTUVWXYZ'' ''abcdefghijklmnopqrstuvwxyz'') c of
        Some d \<Rightarrow> d
      | None \<Rightarrow> c)"

definition lower :: "string \<Rightarrow> string" where
  "lower s = map lower_char s"

definition is_space :: "char \<Rightarrow> bool" where
  "is_space c \<longleftrightarrow>
     c \<in> set [CHR 0x09, CHR 0x0A, CHR 0x0B, CHR 0x0C, CHR 0x0D, CHR 0x1C, CHR 0x1D,
               CHR 0x1E, CHR 0x1F, CHR 0x20, CHR 0x85, CHR 0xA0]"

definition strip :: "string \<Rightarrow> string" where
  "strip s = rev (dropWhile is_space (rev (dropWhile is_space s)))"

definition digits :: "char list" where
  "digits = ''0123456789''"

definition is_digit :: "char \<Rightarrow> bool" where
  "is_digit c \<longleftrightarrow> c \<in> set digits"

definition digit_val :: "char \<Rightarrow> nat" where
  "digit_val c =
     (case map_of (zip ''0123456789'' [0, 1, 2, 3, 4, 5, 6, 7, 8, 9]) c of
        Some d \<Rightarrow> d
      | None \<Rightarrow> 0)"

definition nat_of_digits :: "string \<Rightarrow> nat" where
  "nat_of_digits ds = foldl (\<lambda>a c. 10 * a + digit_val c) 0 ds"

fun starts_with :: "string \<Rightarrow> string \<Rightarrow> bool" where
  "starts_with s [] = True"
| "starts_with [] (k # ks) = False"
| "starts_with (c # cs) (k # ks) = (c = k \<and> starts_with cs ks)"

text \<open>\<open>contains kw s\<close> is Python's \<open>kw in s\<close> on strings.\<close>

fun contains :: "string \<Rightarrow> string \<Rightarrow> bool" where
  "contains kw [] = (kw = [])"
| "contains kw (c # cs) = (starts_with (c # cs) kw \<or> contains kw cs)"

definition contains_any :: "string list \<Rightarrow> string \<Rightarrow> bool" where
  "contains_any kws s = list_ex (\<lambda>kw. contains kw s) kws"

section \<open>Floating-point values\<close>

text \<open>
  A Python \<open>float\<close> is a finite number, one of the two infinities, or NaN. Finite values are
  represented by the rational they stand for; rounding to 53 bits is not modelled, overflow to
  infinity on conversion from text is. Comparisons follow IEEE: every ordered comparison with
  NaN is false.
\<close>

datatype pyfloat = Finite rat | PosInf | NegInf | NaN

fun pf_less :: "pyfloat \<Rightarrow> pyfloat \<Rightarrow> bool" where
  "pf_less (Finite a) (Finite b) = (a < b)"
| "pf_less (Finite a) PosInf = True"
| "pf_less NegInf (Finite b) = True"
| "pf_less NegInf PosInf = True"
| "pf_less _ _ = False"

definition pf_greater :: "pyfloat \<Rightarrow> pyfloat \<Rightarrow> bool" where
  "pf_greater x y = pf_less y x"


text \<open>
  The largest double is \<open>2^1024 - 2^971\<close>; a decimal numeral at or beyond the midpoint between
  it and \<open>2^1024\<close> converts to an infinity.
\<close>

definition double_overflow :: int where
  "double_overflow = 2 ^ 1024 - 2 ^ 970"

definition to_double :: "rat \<Rightarrow> pyfloat" where
  "to_double q =
     (if of_int double_overflow \<le> q then PosInf
      else if q \<le> - of_int double_overflow then NegInf
      else Finite q)"

subsection \<open>\<open>float(str)\<close>\<close>

text \<open>
  The text grammar of \<open>float\<close>: surrounding white space, an optional sign, then \<open>inf\<close>,
  \<open>infinity\<close> or \<open>nan\<close> in any letter case, or a decimal numeral
  \<open>[digitpart] "." digitpart | digitpart ["."]\<close> with an optional exponent, where a digitpart is
  \<open>digit (["_"] digit)*\<close>. \<open>None\<close> is \<open>ValueError\<close>.
\<close>

fun digitpart_ok :: "string \<Rightarrow> bool" where
  "digitpart_ok [] = False"
| "digitpart_ok [c] = is_digit c"
| "digitpart_ok (c # d # r) =
     (is_digit c \<and> (if d = CHR ''_'' then digitpart_ok r else digitpart_ok (d # r)))"

definition is_dig_us :: "char \<Rightarrow> bool" where
  "is_dig_us c \<longleftrightarrow> is_digit c \<or> c = CHR ''_''"

definition split_sign :: "string \<Rightarrow> bool \<times> string" where
  "split_sign s =
     (case s of
        [] \<Rightarrow> (False, [])
      | c # r \<Rightarrow> if c = CHR ''-'' then (True, r) else if c = CHR ''+'' then (False, r)
                 else (False, s))"

definition scale10 :: "nat \<Rightarrow> int \<Rightarrow> rat" where
  "scale10 m e = (if 0 \<le> e then of_nat m * 10 ^ nat e else of_nat m / 10 ^ nat (- e))"

definition parse_exponent :: "string \<Rightarrow> int option" where
  "parse_exponent s =
     (case s of
        [] \<Rightarrow> Some 0
      | c # r \<Rightarrow>
          if c = CHR ''e'' \<or> c = CHR ''E'' then
            (let (neg, ds) = split_sign r
             in if digitpart_ok ds
                then Some (if neg then - int (nat_of_digits (filter is_digit ds))
                           else int (nat_of_digits (filter is_digit ds)))
                else None)
          else None)"

definition decimal_literal :: "string \<Rightarrow> rat option" where
  "decimal_literal u =
     (let ip = takeWhile is_dig_us u;
          r1 = dropWhile is_dig_us u;
          fp = (case r1 of [] \<Rightarrow> [] | c # r \<Rightarrow> if c = CHR ''.'' then takeWhile is_dig_us r else []);
          r2 = (case r1 of [] \<Rightarrow> [] | c # r \<Rightarrow> if c = CHR ''.'' then dropWhile is_dig_us r else r1)
      in if (ip = [] \<or> digitpart_ok ip) \<and> (fp = [] \<or> digitpart_ok fp) \<and> (ip \<noteq> [] \<or> fp \<noteq> [])
         then (case parse_exponent r2 of
                 None \<Rightarrow> None
               | Some e \<Rightarrow>
                   Some (scale10 (nat_of_digits (filter is_digit (ip @ fp)))
                           (e - int (length (filter is_digit fp)))))
         else None)"

definition float_of_string :: "string \<Rightarrow> pyfloat option" where
  "float_of_string s =
     (let (neg, u) = split_sign (strip s);
          lu = lower u
      in if lu = ''inf'' \<or> lu = ''infinity'' then Some (if neg then NegInf else PosInf)
         else if lu = ''nan'' then Some NaN
         else (case decimal_literal u of
                 None \<Rightarrow> None
               | Some q \<Rightarrow> Some (to_double (if neg then - q else q))))"

section \<open>Regular expressions\<close>

text \<open>
  The fragment of Python's \<open>re\<close> the backend uses: a character class, a greedy \<open>*\<close> and \<open>+\<close>
  over a class, a greedy \<open>?\<close>, and concatenation. \<open>rmatch r s\<close> lists, in the order the
  backtracking matcher tries them, the remainders of \<open>s\<close> after a match of \<open>r\<close> at its front;
  \<open>re_search\<close> scans start positions from the left and returns the first match found.
\<close>

datatype re = Chr "char list" | Many "char list" | Many1 "char list" | Opt re | Cat re re

fun many :: "char list \<Rightarrow> string \<Rightarrow> string list" where
  "many cs [] = [[]]"
| "many cs (c # r) = (if c \<in> set cs then many cs r @ [c # r] else [c # r])"

fun rmatch :: "re \<Rightarrow> string \<Rightarrow> string list" where
  "rmatch (Chr cs) s = (case s of [] \<Rightarrow> [] | c # r \<Rightarrow> if c \<in> set cs then [r] else [])"
| "rmatch (Many cs) s = many cs s"
| "rmatch (Many1 cs) s = (case s of [] \<Rightarrow> [] | c # r \<Rightarrow> if c \<in> set cs then many cs r else [])"
| "rmatch (Opt a) s = rmatch a s @ [s]"
| "rmatch (Cat a b) s = concat (map (rmatch b) (rmatch a s))"

fun re_search :: "re \<Rightarrow> string \<Rightarrow> string option" where
  "re_search p s =
     (case rmatch p s of
        r # _ \<Rightarrow> Some (take (length s - length r) s)
      | [] \<Rightarrow> (case s of [] \<Rightarrow> None | _ # t \<Rightarrow> re_search p t))"


text \<open>\<open>[-+]?\d*\.?\d+(?:[eE][-+]?\d+)?\<close>\<close>

definition number_pattern :: re where
  "number_pattern =
     Cat (Opt (Chr ''-+''))
       (Cat (Many digits)
          (Cat (Opt (Chr ''.''))
             (Cat (Many1 digits)
                (Opt (Cat (Chr ''eE'') (Cat (Opt (Chr ''-+'')) (Many1 digits)))))))"

section \<open>Value parser\<close>

text \<open>
  A table cell is missing, numeric or text. \<open>pd.isna\<close> holds of a missing cell and of a NaN
  number. \<open>float\<close> of a number is that number, \<open>float\<close> of text follows
  \<^const>\<open>float_of_string\<close>; only text can reach the \<open>except\<close> branch.
\<close>

datatype cell = Null | Num pyfloat | Str string

definition pd_isna :: "cell \<Rightarrow> bool" where
  "pd_isna c \<longleftrightarrow> c = Null \<or> c = Num NaN"

definition extract_number :: "string \<Rightarrow> pyfloat" where
  "extract_number s =
     (case re_search number_pattern (strip s) of
        Some m \<Rightarrow> (case float_of_string m of Some x \<Rightarrow> x | None \<Rightarrow> Finite 0)
      | None \<Rightarrow> Finite 0)"

fun parse_sensor_value :: "cell \<Rightarrow> pyfloat" where
  "parse_sensor_value Null = Finite 0"
| "parse_sensor_value (Num x) = (if x = NaN then Finite 0 else x)"
| "parse_sensor_value (Str s) =
     (case float_of_string s of Some x \<Rightarrow> x | None \<Rightarrow> extract_number s)"





section \<open>Sensor readings and rack rollups\<close>

text \<open>
  A reading as \<open>update_rack_data\<close> stores it. Its entry \<open>raw_value\<close> is the text of
  \<open>value\<close> and carries nothing of its own, so it is left out. \<open>sensors\<close> is the rack's
  dictionary in insertion order.
\<close>

datatype kind = SensorKind | NetworkKind

record reading =
  r_value :: pyfloat
  r_status :: string
  r_units :: string
  r_type :: kind
  r_interface :: "string option"

type_synonym sensors = "(string \<times> reading) list"

text \<open>The entry written for a row of a sensor table.\<close>

definition sensor_reading :: "pyfloat \<Rightarrow> string \<Rightarrow> string \<Rightarrow> reading" where
  "sensor_reading sensor_value sensor_status sensor_units =
     \<lparr>r_value = sensor_value, r_status = sensor_status, r_units = sensor_units,
      r_type = SensorKind, r_interface = None\<rparr>"

subsection \<open>\<open>calculate_rack_status\<close>\<close>

datatype level = Critical | Warning | Normal

text \<open>The branch of the counting loop one sensor takes.\<close>

definition sensor_level :: "string \<Rightarrow> reading \<Rightarrow> level" where
  "sensor_level sensor_name sensor_data =
     (let status = lower (r_status sensor_data)
      in if contains ''critical'' status \<or> contains ''non-recoverable'' status then Critical
         else if contains ''non-critical'' status \<or> contains ''warning'' status then Warning
         else if contains ''ok'' status \<or> contains ''normal'' status then Normal
         else
           (let v = r_value sensor_data; sensor_lower = lower sensor_name
            in if contains ''temp'' sensor_lower \<or> contains ''temperature'' sensor_lower then
                 (if pf_greater v (Finite 85) then Critical
                  else if pf_greater v (Finite 75) then Warning
                  else Normal)
               else Normal))"

text \<open>The three counters \<open>(critical_count, warning_count, normal_count)\<close>.\<close>

definition count_sensor :: "nat \<times> nat \<times> nat \<Rightarrow> string \<times> reading \<Rightarrow> nat \<times> nat \<times> nat" where
  "count_sensor acc item =
     (case acc of (c, w, n) \<Rightarrow>
        (case sensor_level (fst item) (snd item) of
           Critical \<Rightarrow> (c + 1, w, n)
         | Warning \<Rightarrow> (c, w + 1, n)
         | Normal \<Rightarrow> (c, w, n + 1)))"

definition status_counts :: "sensors \<Rightarrow> nat \<times> nat \<times> nat" where
  "status_counts ss = foldl count_sensor (0, 0, 0) ss"

text \<open>
  The quotient of the two counts is compared as an exact fraction with the thresholds
  \<open>0.1\<close> and \<open>0.2\<close>.
\<close>

definition calculate_rack_status :: "sensors \<Rightarrow> string" where
  "calculate_rack_status ss =
     (case status_counts ss of (critical_count, warning_count, normal_count) \<Rightarrow>
        (let total_sensors = critical_count + warning_count + normal_count
         in if total_sensors = 0 then ''unknown''
            else if critical_count > 0
                    \<and> (of_nat critical_count / of_nat total_sensors :: rat) > 1 / 10
                 then ''critical''
            else if warning_count > 0
                    \<and> (of_nat warning_count / of_nat total_sensors :: rat) > 2 / 10
                 then ''warning''
            else ''normal''))"

text \<open>How many sensors of a rack take a given branch.\<close>

definition level_count :: "level \<Rightarrow> sensors \<Rightarrow> nat" where
  "level_count l ss = length (filter (\<lambda>item. sensor_level (fst item) (snd item) = l) ss)"

subsection \<open>\<open>round\<close> and \<open>calculate_rack_temperature\<close>\<close>

text \<open>\<open>round(x, ndigits)\<close> on a finite value: to the nearest multiple of \<open>10^-ndigits\<close>, ties to even.\<close>

definition round_half_even :: "rat \<Rightarrow> int" where
  "round_half_even q =
     (let f = \<lfloor>q\<rfloor>; d = q - of_int f
      in if d < 1 / 2 then f else if 1 / 2 < d then f + 1 else if even f then f else f + 1)"

definition py_round :: "rat \<Rightarrow> nat \<Rightarrow> rat" where
  "py_round q ndigits = of_int (round_half_even (q * 10 ^ ndigits)) / 10 ^ ndigits"

text \<open>A value that passed \<open>-10 < value < 120\<close> is finite; \<open>finite_part\<close> reads it.\<close>

fun finite_part :: "pyfloat \<Rightarrow> rat" where
  "finite_part (Finite q) = q"
| "finite_part _ = 0"

definition is_temp_sample :: "string \<times> reading \<Rightarrow> bool" where
  "is_temp_sample item =
     (let v = r_value (snd item); sensor_lower = lower (fst item)
      in (contains ''temp'' sensor_lower \<or> contains ''temperature'' sensor_lower)
         \<and> \<not> contains ''volt'' sensor_lower
         \<and> pf_less (Finite (- 10)) v \<and> pf_less v (Finite 120))"

definition temps_of :: "sensors \<Rightarrow> rat list" where
  "temps_of ss = map (\<lambda>item. finite_part (r_value (snd item))) (filter is_temp_sample ss)"

definition calculate_rack_temperature :: "sensors \<Rightarrow> rat" where
  "calculate_rack_temperature ss =
     (let temps = temps_of ss
      in if temps \<noteq> [] then
           (let temps_sorted = sort temps;
                n = length temps_sorted;
                start = n div 4;
                end' = 3 * n div 4;
                middle_temps = (if n > 4 then take (end' - start) (drop start temps_sorted)
                                else temps)
            in py_round (sum_list middle_temps / of_nat (length middle_temps)) 1)
         else 40)"

subsection \<open>Example racks\<close>

text \<open>
  \<open>example_rack c w n\<close> has \<open>c\<close> sensors reported \<open>critical\<close>, then \<open>w\<close> reported \<open>warning\<close>,
  then \<open>n\<close> reported \<open>ok\<close>; \<open>temp_rack vs\<close> has one temperature sensor for each value of \<open>vs\<close>.
\<close>

definition example_rack :: "nat \<Rightarrow> nat \<Rightarrow> nat \<Rightarrow> sensors" where
  "example_rack c w n =
     map (\<lambda>i. (replicate (Suc i) CHR ''s'',
               sensor_reading (Finite 1)
                 (if i < c then ''critical'' else if i < c + w then ''warning'' else ''ok'') []))
       [0 ..< c + w + n]"


section \<open>Tables and the row loaders\<close>

text \<open>
  A data frame is its column labels and its rows, every row holding one cell per column.
  \<open>row_get cols row col\<close> is \<open>row[col]\<close>; labels are distinct in a frame read from a file, and a
  label that is not a column does not occur in the loaders. \<open>str\<close> of a number is not
  modelled: every loader takes the function \<open>float_str\<close> that gives it.
\<close>

record dataframe =
  df_columns :: "string list"
  df_rows :: "cell list list"

definition row_get :: "string list \<Rightarrow> cell list \<Rightarrow> string \<Rightarrow> cell" where
  "row_get cols row col = (case map_of (zip cols row) col of Some c \<Rightarrow> c | None \<Rightarrow> Null)"

fun cell_str :: "(pyfloat \<Rightarrow> string) \<Rightarrow> cell \<Rightarrow> string" where
  "cell_str float_str Null = ''None''"
| "cell_str float_str (Num x) = float_str x"
| "cell_str float_str (Str s) = s"

fun str_of_nat :: "nat \<Rightarrow> string" where
  "str_of_nat n = (if n < 10 then [digits ! n] else str_of_nat (n div 10) @ [digits ! (n mod 10)])"

definition ends_with :: "string \<Rightarrow> string \<Rightarrow> bool" where
  "ends_with s suffix = starts_with (rev s) (rev suffix)"

text \<open>
  \<open>store_all d es\<close> assigns the entries \<open>es\<close> to the dictionary \<open>d\<close> one after the other:
  a key that is present keeps its place and takes the new value, a new key goes to the end.
\<close>

definition store_all :: "('k \<times> 'v) list \<Rightarrow> ('k \<times> 'v) list \<Rightarrow> ('k \<times> 'v) list" where
  "store_all d es = foldl (\<lambda>d kv. AList.update (fst kv) (snd kv) d) d es"

subsection \<open>Rows of a sensor table\<close>

text \<open>
  The body of the row loop of \<open>update_rack_data\<close>. Each role is looked up by the first column
  whose lower-cased label contains a keyword of the role.
\<close>

definition is_name_col :: "string \<Rightarrow> bool" where
  "is_name_col col = (let col_lower = lower col
                      in contains ''sensor'' col_lower \<or> contains ''name'' col_lower)"

definition is_value_col :: "string \<Rightarrow> bool" where
  "is_value_col col = (let col_lower = lower col
                       in contains ''value'' col_lower \<or> contains ''reading'' col_lower)"

definition is_status_col :: "string \<Rightarrow> bool" where
  "is_status_col col = contains ''status'' (lower col)"

definition is_units_col :: "string \<Rightarrow> bool" where
  "is_units_col col = contains ''unit'' (lower col)"

definition row_sensor_name :: "(pyfloat \<Rightarrow> string) \<Rightarrow> string list \<Rightarrow> cell list \<Rightarrow> string option" where
  "row_sensor_name float_str cols row =
     (case List.find is_name_col cols of
        Some col \<Rightarrow> Some (strip (cell_str float_str (row_get cols row col)))
      | None \<Rightarrow> None)"

text \<open>
  The value: the first value column, else the first column whose label is none of \<open>Sensor\<close>,
  \<open>Status\<close>, \<open>Units\<close>. The parser never raises, so the second loop stops at the first such
  column. Without any such column the value stays \<open>0\<close>.
\<close>

definition is_fallback_col :: "string \<Rightarrow> bool" where
  "is_fallback_col col \<longleftrightarrow> col \<noteq> ''Sensor'' \<and> col \<noteq> ''Status'' \<and> col \<noteq> ''Units''"

definition row_sensor_value :: "string list \<Rightarrow> cell list \<Rightarrow> pyfloat" where
  "row_sensor_value cols row =
     (case List.find is_value_col cols of
        Some col \<Rightarrow> parse_sensor_value (row_get cols row col)
      | None \<Rightarrow>
          (case List.find is_fallback_col cols of
             Some col \<Rightarrow> parse_sensor_value (row_get cols row col)
           | None \<Rightarrow> Finite 0))"

definition status_from_value :: "string \<Rightarrow> pyfloat \<Rightarrow> string" where
  "status_from_value sensor_name sensor_value =
     (if contains ''temp'' (lower sensor_name) then
        (if pf_greater sensor_value (Finite 85) then ''critical''
         else if pf_greater sensor_value (Finite 75) then ''warning''
         else ''ok'')
      else ''ok'')"

definition row_sensor_status ::
  "(pyfloat \<Rightarrow> string) \<Rightarrow> string list \<Rightarrow> cell list \<Rightarrow> string \<Rightarrow> pyfloat \<Rightarrow> string" where
  "row_sensor_status float_str cols row sensor_name sensor_value =
     (case List.find is_status_col cols of
        Some col \<Rightarrow>
          (let raw_status = row_get cols row col
           in if \<not> pd_isna raw_status then strip (cell_str float_str raw_status)
              else status_from_value sensor_name sensor_value)
      | None \<Rightarrow> status_from_value sensor_name sensor_value)"

definition row_sensor_units :: "(pyfloat \<Rightarrow> string) \<Rightarrow> string list \<Rightarrow> cell list \<Rightarrow> string" where
  "row_sensor_units float_str cols row =
     (case List.find is_units_col cols of
        Some col \<Rightarrow>
          (let raw_units = row_get cols row col
           in if \<not> pd_isna raw_units then strip (cell_str float_str raw_units) else [])
      | None \<Rightarrow> [])"

text \<open>
  The entry a row contributes: its name and reading. A row without a name column, or whose
  name is empty, is skipped (\<open>None\<close>).
\<close>

definition row_entry :: "(pyfloat \<Rightarrow> string) \<Rightarrow> string list \<Rightarrow> cell list \<Rightarrow> (string \<times> reading) option" where
  "row_entry float_str cols row =
     (case row_sensor_name float_str cols row of
        None \<Rightarrow> None
      | Some sensor_name \<Rightarrow>
          if sensor_name = [] then None
          else
            (let sensor_value = row_sensor_value cols row;
                 sensor_status = row_sensor_status float_str cols row sensor_name sensor_value;
                 sensor_units = row_sensor_units float_str cols row
             in Some (sensor_name, sensor_reading sensor_value sensor_status sensor_units)))"

text \<open>
  One pass of the loop over \<open>(sensors_dict, sensor_count, current_state)\<close>. Assigning to a key
  that is present replaces its entry in place. The gauges the loop also registers are not
  modelled; registering never raises, since every generated metric name is new and well formed.
\<close>

type_synonym sensor_acc = "sensors \<times> nat \<times> (string \<times> pyfloat) list"

definition sensor_row :: "(pyfloat \<Rightarrow> string) \<Rightarrow> string list \<Rightarrow> sensor_acc \<Rightarrow> cell list \<Rightarrow> sensor_acc" where
  "sensor_row float_str cols acc row =
     (case acc of (sensors_dict, sensor_count, current) \<Rightarrow>
        (case row_entry float_str cols row of
           None \<Rightarrow> acc
         | Some (sensor_name, entry) \<Rightarrow>
             (AList.update sensor_name entry sensors_dict,
              sensor_count + 1,
              AList.update sensor_name (r_value entry) current)))"

definition sensor_rows :: "(pyfloat \<Rightarrow> string) \<Rightarrow> dataframe \<Rightarrow> (string \<times> pyfloat) list \<Rightarrow> sensor_acc" where
  "sensor_rows float_str df current =
     foldl (sensor_row float_str (df_columns df)) ([], 0, current) (df_rows df)"

text \<open>The entries of the rows that are not skipped, in row order, and their names.\<close>

definition usable_entries :: "(pyfloat \<Rightarrow> string) \<Rightarrow> dataframe \<Rightarrow> (string \<times> reading) list" where
  "usable_entries float_str df = List.map_filter (row_entry float_str (df_columns df)) (df_rows df)"

definition usable_names :: "(pyfloat \<Rightarrow> string) \<Rightarrow> dataframe \<Rightarrow> string list" where
  "usable_names float_str df = map fst (usable_entries float_str df)"

text \<open>Examples print no number; \<open>example_str\<close> stands for \<open>str\<close> on numbers there.\<close>

definition example_str :: "pyfloat \<Rightarrow> string" where
  "example_str x = ''?''"

subsection \<open>Random draws\<close>

text \<open>
  \<open>random.uniform(a, b)\<close> is \<open>a + (b - a) * random()\<close> with \<open>random()\<close> in \<open>[0, 1)\<close>. The
  generator is the sequence of its results; a position in it is threaded through the loaders.
  The arithmetic is exact.
\<close>

definition uniform :: "rat \<Rightarrow> rat \<Rightarrow> rat \<Rightarrow> rat" where
  "uniform a b u = a + (b - a) * u"

definition constant_draws :: "rat \<Rightarrow> nat \<Rightarrow> rat" where
  "constant_draws u i = u"

subsection \<open>Rows of a network table\<close>

record net_reading =
  n_value :: pyfloat
  n_status :: string
  n_units :: string

type_synonym interfaces = "(string \<times> net_reading) list"

definition is_interface_col :: "string \<Rightarrow> bool" where
  "is_interface_col col =
     contains_any [''interface'', ''port'', ''nic'', ''network'', ''name''] (lower col)"

definition is_throughput_col :: "string \<Rightarrow> bool" where
  "is_throughput_col col =
     contains_any [''throughput'', ''bandwidth'', ''speed'', ''rate'', ''utilization'', ''value'',
                   ''mbps'', ''gbps''] (lower col)"

text \<open>Both lookups pass over a matching column whose cell is missing.\<close>

definition row_interface_name :: "(pyfloat \<Rightarrow> string) \<Rightarrow> string list \<Rightarrow> cell list \<Rightarrow> string option" where
  "row_interface_name float_str cols row =
     (case List.find (\<lambda>col. is_interface_col col \<and> \<not> pd_isna (row_get cols row col)) cols of
        Some col \<Rightarrow> Some (strip (cell_str float_str (row_get cols row col)))
      | None \<Rightarrow> None)"

definition row_throughput :: "string list \<Rightarrow> cell list \<Rightarrow> pyfloat" where
  "row_throughput cols row =
     (let throughput_value =
            (case List.find (\<lambda>col. is_throughput_col col \<and> \<not> pd_isna (row_get cols row col)) cols of
               Some col \<Rightarrow> parse_sensor_value (row_get cols row col)
             | None \<Rightarrow> Finite 0)
      in if throughput_value = Finite 0 then
           (case List.find
                   (\<lambda>col. col \<noteq> ''Interface'' \<and> col \<noteq> ''Port'' \<and> col \<noteq> ''Name''
                          \<and> pf_greater (parse_sensor_value (row_get cols row col)) (Finite 0))
                   cols of
              Some col \<Rightarrow> parse_sensor_value (row_get cols row col)
            | None \<Rightarrow> throughput_value)
         else throughput_value)"

definition throughput_status :: "pyfloat \<Rightarrow> string" where
  "throughput_status throughput_value =
     (if pf_greater throughput_value (Finite 95) then ''critical''
      else if pf_greater throughput_value (Finite 85) then ''warning''
      else ''ok'')"

definition interface_row ::
  "(pyfloat \<Rightarrow> string) \<Rightarrow> string list \<Rightarrow> interfaces \<times> nat \<Rightarrow> cell list \<Rightarrow> interfaces \<times> nat" where
  "interface_row float_str cols acc row =
     (case acc of (network_data, interface_count) \<Rightarrow>
        (case row_interface_name float_str cols row of
           None \<Rightarrow> acc
         | Some interface_name \<Rightarrow>
             if interface_name = [] then acc
             else
               (let throughput_value = row_throughput cols row
                in if pf_greater throughput_value (Finite 0) then
                     (AList.update interface_name
                        \<lparr>n_value = throughput_value, n_status = throughput_status throughput_value,
                         n_units = ''Mbps''\<rparr> network_data,
                      interface_count + 1)
                   else acc)))"

definition interface_rows :: "(pyfloat \<Rightarrow> string) \<Rightarrow> dataframe \<Rightarrow> interfaces \<times> nat" where
  "interface_rows float_str df = foldl (interface_row float_str (df_columns df)) ([], 0) (df_rows df)"

text \<open>The placeholder interfaces \<open>eth1\<close> to \<open>eth4\<close>, from four draws starting at position \<open>k\<close>.\<close>

definition sample_interface :: "rat \<Rightarrow> net_reading" where
  "sample_interface throughput =
     \<lparr>n_value = Finite (py_round throughput 2),
      n_status = (if throughput < 85 then ''ok'' else if throughput < 95 then ''warning''
                  else ''critical''),
      n_units = ''Mbps''\<rparr>"

definition sample_interfaces :: "(nat \<Rightarrow> rat) \<Rightarrow> nat \<Rightarrow> interfaces" where
  "sample_interfaces rnd k =
     foldl (\<lambda>network_data i.
              AList.update (''eth'' @ str_of_nat i)
                (sample_interface (uniform 10 80 (rnd (k + (i - 1))))) network_data)
       [] [1 ..< 5]"

text \<open>
  What \<open>load_network_data\<close> makes of one frame: the parsed interfaces and their count, or the
  four placeholders when no row gave an interface; and the position of the next draw.
\<close>

definition network_table ::
  "(pyfloat \<Rightarrow> string) \<Rightarrow> (nat \<Rightarrow> rat) \<Rightarrow> nat \<Rightarrow> dataframe \<Rightarrow> (interfaces \<times> nat) \<times> nat" where
  "network_table float_str rnd k df =
     (case interface_rows float_str df of (network_data, interface_count) \<Rightarrow>
        if network_data = [] then ((sample_interfaces rnd k, 4), k + 4)
        else ((network_data, interface_count), k))"

definition empty_table :: dataframe where
  "empty_table = \<lparr>df_columns = [''Interface'', ''Mbps''], df_rows = []\<rparr>"

section \<open>The rack registry\<close>

subsection \<open>Rack numbers of file names\<close>

text \<open>
  \<open>extract_rack_number\<close> searches the lower-cased file name with six patterns in turn and reads
  the digits of the first one that matches; failing all, it reads the first run of digits.
  Every pattern has one group \<open>(\d+)\<close>, at its end or at its front, next to characters that
  are not digits: the group is the longest run of digits at that end of the match.
\<close>

definition separators :: "char list" where
  "separators = [CHR ''_'', CHR ''-'', CHR 0x09, CHR 0x0A, CHR 0x0B, CHR 0x0C, CHR 0x0D, CHR 0x1C,
                 CHR 0x1D, CHR 0x1E, CHR 0x1F, CHR 0x20, CHR 0x85, CHR 0xA0]"

fun lit :: "string \<Rightarrow> re" where
  "lit [] = Many []"
| "lit [c] = Chr [c]"
| "lit (c # d # r) = Cat (Chr [c]) (lit (d # r))"

datatype group_at = Front | Back

definition rack_patterns :: "(re \<times> group_at) list" where
  "rack_patterns =
     [(Cat (lit ''rack'') (Cat (Many separators) (Many1 digits)), Back),
      (Cat (lit ''r'') (Many1 digits), Back),
      (Cat (lit ''server'') (Cat (Many separators) (Many1 digits)), Back),
      (Cat (lit ''node'') (Cat (Many separators) (Many1 digits)), Back),
      (Cat (Many1 digits) (Cat (Many separators) (lit ''rack'')), Front),
      (Cat (Many1 digits) (Cat (Many separators) (lit ''server'')), Front)]"

fun group1 :: "group_at \<Rightarrow> string \<Rightarrow> string" where
  "group1 Front m = takeWhile is_digit m"
| "group1 Back m = rev (takeWhile is_digit (rev m))"

fun first_group :: "(re \<times> group_at) list \<Rightarrow> string \<Rightarrow> nat option" where
  "first_group [] s = None"
| "first_group ((p, g) # ps) s =
     (case re_search p s of
        Some m \<Rightarrow> Some (nat_of_digits (group1 g m))
      | None \<Rightarrow> first_group ps s)"

definition extract_rack_number :: "string \<Rightarrow> nat option" where
  "extract_rack_number filename =
     (let filename_lower = lower filename
      in case first_group rack_patterns filename_lower of
           Some n \<Rightarrow> Some n
         | None \<Rightarrow>
             (case re_search (Many1 digits) filename of
                Some m \<Rightarrow> Some (nat_of_digits m)
              | None \<Rightarrow> None))"

subsection \<open>The outside world\<close>

text \<open>
  What one reload sees of the file system and of the random generator: whether each folder
  exists, what \<open>os.listdir\<close> gives (\<open>None\<close> when it raises), what \<open>pd.read_csv\<close> gives for a
  file name of the folder, retry included (\<open>None\<close> when it raises), the draws, and \<open>str\<close> on
  numbers.
\<close>

record env =
  csv_folder_exists :: bool
  csv_folder_listing :: "string list option"
  sensor_csv :: "string \<Rightarrow> dataframe option"
  network_folder_exists :: bool
  network_folder_listing :: "string list option"
  network_csv :: "string \<Rightarrow> dataframe option"
  random_floats :: "nat \<Rightarrow> rat"
  str_of_float :: "pyfloat \<Rightarrow> string"

datatype error = ListingFailed

subsection \<open>\<open>load_network_data\<close>\<close>

text \<open>
  The summary \<open>metrics\<close> of a network file is not modelled. A file without a rack number, and
  a file that cannot be read, is passed over.
\<close>

record net_file =
  nf_filename :: string
  nf_data :: interfaces
  nf_dataframe :: dataframe
  nf_interface_count :: nat

type_synonym network_files = "(nat \<times> net_file) list"

definition network_file :: "env \<Rightarrow> network_files \<times> nat \<Rightarrow> string \<Rightarrow> network_files \<times> nat" where
  "network_file e acc filename =
     (case acc of (files, k) \<Rightarrow>
        (case extract_rack_number filename of
           None \<Rightarrow> acc
         | Some rack_id \<Rightarrow>
             (case network_csv e filename of
                None \<Rightarrow> acc
              | Some df \<Rightarrow>
                  (case network_table (str_of_float e) (random_floats e) k df of
                     ((network_data, interface_count), k') \<Rightarrow>
                       (AList.update rack_id
                          \<lparr>nf_filename = filename, nf_data = network_data, nf_dataframe = df,
                           nf_interface_count = interface_count\<rparr> files,
                        k')))))"

definition load_network_data :: "env \<Rightarrow> nat \<Rightarrow> error + network_files \<times> nat" where
  "load_network_data e k =
     (if \<not> network_folder_exists e then Inr ([], k)
      else
        (case network_folder_listing e of
           None \<Rightarrow> Inl ListingFailed
         | Some listing \<Rightarrow>
             Inr (foldl (network_file e) ([], k) (filter (\<lambda>f. ends_with f ''.csv'') listing))))"

subsection \<open>The registry and \<open>update_rack_data\<close>\<close>

text \<open>
  The module's tables, with the position of the next random draw. Of a rack's snapshot the
  entries \<open>power\<close>, \<open>network\<close> and \<open>timestamp\<close> are not modelled. A table is a dictionary in
  insertion order.
\<close>

record rack_file =
  rf_filename :: string
  rf_path :: string
  rf_dataframe :: dataframe
  rf_all_files :: "string list"

record rack =
  rk_sensors :: sensors
  rk_status :: string
  rk_temperature :: rat
  rk_sensor_count :: nat

record rack_meta =
  rm_filename :: string
  rm_temperature :: nat
  rm_power :: nat
  rm_network :: nat
  rm_cooling :: nat
  rm_total :: nat

record registry =
  rack_files :: "(nat \<times> rack_file) list"
  rack_data :: "(nat \<times> rack) list"
  rack_metadata :: "(nat \<times> rack_meta) list"
  sensor_categories :: "(string \<times> string set) list"
  current_state :: "(string \<times> pyfloat) list"
  random_pos :: nat

definition network_reading :: "string \<Rightarrow> net_reading \<Rightarrow> reading" where
  "network_reading interface net_data =
     \<lparr>r_value = n_value net_data, r_status = n_status net_data, r_units = n_units net_data,
      r_type = NetworkKind, r_interface = Some interface\<rparr>"

definition add_interface :: "sensors \<times> nat \<Rightarrow> string \<times> net_reading \<Rightarrow> sensors \<times> nat" where
  "add_interface acc item =
     (case acc of (sensors_dict, sensor_count) \<Rightarrow>
        (AList.update (''Network_'' @ fst item) (network_reading (fst item) (snd item)) sensors_dict,
         sensor_count + 1))"

text \<open>The category a sensor falls in, by the first branch of the chain that applies.\<close>

definition category_of :: "string \<Rightarrow> reading \<Rightarrow> string" where
  "category_of sensor_name sensor_data =
     (let sensor_lower = lower sensor_name
      in if contains_any [''temp'', ''temperature'', ''thermal''] sensor_lower
            \<and> \<not> contains ''volt'' sensor_lower then ''temperature''
         else if contains_any [''power'', ''watt'', ''volt'', ''current'', ''vrm'', ''vbat'', ''vcc'',
                               ''vcpu'', ''vdimm''] sensor_lower then ''power''
         else if contains_any [''cpu'', ''processor'', ''core''] sensor_lower then ''cpu''
         else if contains_any [''memory'', ''ram'', ''swap'', ''dimm''] sensor_lower then ''memory''
         else if contains_any [''fan'', ''rpm'', ''cooling'', ''airflow''] sensor_lower then ''cooling''
         else if r_type sensor_data = NetworkKind
                 \<or> contains_any [''network'', ''interface'', ''port'', ''nic'', ''throughput'',
                                  ''bandwidth''] sensor_lower then ''network''
         else if contains_any [''disk'', ''storage'', ''io'', ''read'', ''write'', ''hdd'', ''sas'']
                   sensor_lower then ''disk''
         else if contains_any [''humidity'', ''moisture''] sensor_lower then ''environment''
         else ''other'')"

definition add_category :: "(string \<times> string set) list \<Rightarrow> string \<times> reading \<Rightarrow> (string \<times> string set) list" where
  "add_category cats item =
     (let category = category_of (fst item) (snd item)
      in AList.update category
           (insert (fst item) (case map_of cats category of Some names \<Rightarrow> names | None \<Rightarrow> {}))
           cats)"

definition category_count :: "string \<Rightarrow> sensors \<Rightarrow> nat" where
  "category_count category sensors_dict =
     length (filter (\<lambda>item. category_of (fst item) (snd item) = category) sensors_dict)"

text \<open>
  The first half of the pass of \<open>update_rack_data\<close> for one rack of \<open>rack_files\<close>: the
  dictionary and the count after the rows of the rack's frame and after the interfaces of its
  network file, if it has one; with them, \<open>current_state\<close> after the rows.
\<close>

definition rack_sensors ::
  "env \<Rightarrow> network_files \<Rightarrow> (string \<times> pyfloat) list \<Rightarrow> nat \<times> rack_file \<Rightarrow> sensor_acc" where
  "rack_sensors e network_data current entry =
     (case entry of (rack_id, rack_info) \<Rightarrow>
        (case sensor_rows (str_of_float e) (rf_dataframe rack_info) current of
           (row_sensors, row_count, current') \<Rightarrow>
             (case map_of network_data rack_id of
                Some net_info \<Rightarrow>
                  (case foldl add_interface (row_sensors, row_count) (nf_data net_info) of
                     (sensors_dict, sensor_count) \<Rightarrow> (sensors_dict, sensor_count, current'))
              | None \<Rightarrow> (row_sensors, row_count, current'))))"

text \<open>The second half: the snapshot, the categories and the metadata, unless the dictionary is empty.\<close>

definition update_rack :: "env \<Rightarrow> network_files \<Rightarrow> registry \<Rightarrow> nat \<times> rack_file \<Rightarrow> registry" where
  "update_rack e network_data st entry =
     (case rack_sensors e network_data (current_state st) entry of
        (sensors_dict, sensor_count, current) \<Rightarrow>
          if sensors_dict \<noteq> [] then
            st\<lparr>current_state := current,
               rack_data :=
                 AList.update (fst entry)
                   \<lparr>rk_sensors = sensors_dict,
                    rk_status = calculate_rack_status sensors_dict,
                    rk_temperature = calculate_rack_temperature sensors_dict,
                    rk_sensor_count = sensor_count\<rparr> (rack_data st),
               sensor_categories := foldl add_category (sensor_categories st) sensors_dict,
               rack_metadata :=
                 AList.update (fst entry)
                   \<lparr>rm_filename = rf_filename (snd entry),
                    rm_temperature = category_count ''temperature'' sensors_dict,
                    rm_power = category_count ''power'' sensors_dict,
                    rm_network = category_count ''network'' sensors_dict,
                    rm_cooling = category_count ''cooling'' sensors_dict,
                    rm_total = sensor_count\<rparr> (rack_metadata st)\<rparr>
          else st\<lparr>current_state := current\<rparr>)"

text \<open>The entries the interfaces of a rack's network file are stored as.\<close>

definition network_entries :: "network_files \<Rightarrow> nat \<Rightarrow> (string \<times> reading) list" where
  "network_entries network_data rack_id =
     (case map_of network_data rack_id of
        Some net_info \<Rightarrow>
          map (\<lambda>item. (''Network_'' @ fst item, network_reading (fst item) (snd item)))
            (nf_data net_info)
      | None \<Rightarrow> [])"

text \<open>
  \<open>update_rack_data\<close> loads the network files first; when that raises, no table has been
  touched. The result is the error, if any, and the registry as the call leaves it.
\<close>

definition update_rack_data :: "env \<Rightarrow> registry \<Rightarrow> error option \<times> registry" where
  "update_rack_data e st =
     (case load_network_data e (random_pos st) of
        Inl err \<Rightarrow> (Some err, st)
      | Inr (network_data, k) \<Rightarrow>
          (None, foldl (update_rack e network_data) (st\<lparr>random_pos := k\<rparr>) (rack_files st)))"

subsection \<open>\<open>create_sample_racks\<close>\<close>

definition sample_sensors :: "string list" where
  "sample_sensors =
     [''CPU1 Temp'', ''CPU2 Temp'', ''System Temp'', ''FAN1'', ''FAN2'', ''12V'', ''5VCC'', ''3.3VCC'',
      ''P1-DIMMA1 Temp'', ''Vcpu1'']"

text \<open>
  The value, status and units drawn for one sample sensor, with the position of the next draw.
  The decimal bounds of the draws are exact here.
\<close>

definition sample_sensor :: "(nat \<Rightarrow> rat) \<Rightarrow> nat \<Rightarrow> string \<Rightarrow> (rat \<times> string \<times> string) \<times> nat" where
  "sample_sensor rnd k sensor =
     (if contains ''Temp'' sensor then
        (let base_temp = 40 + uniform (- 5) 10 (rnd k)
         in if contains ''CPU'' sensor then
              (let v = base_temp + uniform 5 20 (rnd (k + 1))
               in ((v, if v < 70 then ''ok'' else if v < 80 then ''warning'' else ''critical'',
                    ''degrees C''), k + 2))
            else ((base_temp + uniform (- 5) 5 (rnd (k + 1)), ''ok'', ''degrees C''), k + 2))
      else if contains ''FAN'' sensor then ((uniform 1000 3000 (rnd k), ''ok'', ''RPM''), k + 1)
      else if contains ''V'' sensor then
        ((if contains ''12V'' sensor then uniform (119 / 10) (121 / 10) (rnd k)
          else if contains ''5V'' sensor then uniform (495 / 100) (505 / 100) (rnd k)
          else if contains ''3.3V'' sensor then uniform (328 / 100) (332 / 100) (rnd k)
          else uniform 1 (3 / 2) (rnd k), ''ok'', ''Volts''), k + 1)
      else ((uniform 20 40 (rnd k), ''ok'', ''degrees C''), k + 1))"

text \<open>
  The rows of the sample frame, one per sample sensor, in the column order \<open>Sensor\<close>, \<open>Value\<close>,
  \<open>Units\<close>, \<open>Status\<close>; the sample names are distinct, so no entry of the dictionary the frame is
  built from is overwritten.
\<close>

fun sample_rows :: "(nat \<Rightarrow> rat) \<Rightarrow> nat \<Rightarrow> string list \<Rightarrow> cell list list \<times> nat" where
  "sample_rows rnd k [] = ([], k)"
| "sample_rows rnd k (sensor # rest) =
     (case sample_sensor rnd k sensor of
        ((v, status, units), k') \<Rightarrow>
          (case sample_rows rnd k' rest of
             (rows, k'') \<Rightarrow>
               ([Str sensor, Num (Finite (py_round v 3)), Str units, Str status] # rows, k'')))"

text \<open>
  One sample rack. The four draws for its \<open>network_data\<close> are made, and the dictionary is then
  dropped: only the frame goes into \<open>rack_files\<close>.
\<close>

definition sample_rack :: "env \<Rightarrow> registry \<Rightarrow> nat \<Rightarrow> registry" where
  "sample_rack e st rack_id =
     (case sample_rows (random_floats e) (random_pos st) sample_sensors of
        (rows, k) \<Rightarrow>
          st\<lparr>random_pos := k + 4,
             rack_files :=
               AList.update rack_id
                 \<lparr>rf_filename = ''sample_rack_'' @ str_of_nat rack_id @ ''.csv'',
                  rf_path = ''sample/path/rack_'' @ str_of_nat rack_id @ ''.csv'',
                  rf_dataframe = \<lparr>df_columns = [''Sensor'', ''Value'', ''Units'', ''Status''],
                                  df_rows = rows\<rparr>,
                  rf_all_files = [''sample_rack_'' @ str_of_nat rack_id @ ''.csv'']\<rparr>
                 (rack_files st)\<rparr>)"

definition create_sample_racks :: "env \<Rightarrow> registry \<Rightarrow> error option \<times> registry" where
  "create_sample_racks e st = update_rack_data e (foldl (sample_rack e) st [1 ..< 6])"

subsection \<open>\<open>load_rack_data\<close> and the reload endpoint\<close>

definition group_file :: "(nat \<times> string list) list \<Rightarrow> string \<Rightarrow> (nat \<times> string list) list" where
  "group_file rack_numbers filename =
     (case extract_rack_number filename of
        None \<Rightarrow> rack_numbers
      | Some rack_id \<Rightarrow>
          if rack_id = 0 then rack_numbers
          else AList.update rack_id
                 ((case map_of rack_numbers rack_id of Some fs \<Rightarrow> fs | None \<Rightarrow> []) @ [filename])
                 rack_numbers)"

definition load_rack_file :: "env \<Rightarrow> registry \<Rightarrow> nat \<times> string list \<Rightarrow> registry" where
  "load_rack_file e st entry =
     (case entry of (rack_id, filenames) \<Rightarrow>
        (case filenames of
           [] \<Rightarrow> st
         | filename # _ \<Rightarrow>
             (case sensor_csv e filename of
                None \<Rightarrow> st
              | Some df \<Rightarrow>
                  st\<lparr>rack_files :=
                       AList.update rack_id
                         \<lparr>rf_filename = filename,
                          rf_path = ''../../Data/Sensor_data/'' @ filename,
                          rf_dataframe = df,
                          rf_all_files = filenames\<rparr> (rack_files st)\<rparr>)))"

text \<open>The four \<open>clear()\<close> calls that open \<open>load_rack_data\<close>.\<close>

definition cleared :: "registry \<Rightarrow> registry" where
  "cleared st = st\<lparr>rack_files := [], rack_data := [], rack_metadata := [], sensor_categories := []\<rparr>"

definition load_rack_data :: "env \<Rightarrow> registry \<Rightarrow> error option \<times> registry" where
  "load_rack_data e st =
     (let st1 = cleared st
      in if \<not> csv_folder_exists e then create_sample_racks e st1
         else
           (case csv_folder_listing e of
              None \<Rightarrow> (Some ListingFailed, st1)
            | Some listing \<Rightarrow>
                (let csv_files = filter (\<lambda>f. ends_with f ''.csv'') listing
                 in if length csv_files = 0 then create_sample_racks e st1
                    else update_rack_data e
                           (foldl (load_rack_file e) st1 (foldl group_file [] csv_files)))))"

text \<open>The HTTP status the reload endpoint answers with, and the registry afterwards.\<close>

definition reload_data :: "env \<Rightarrow> registry \<Rightarrow> nat \<times> registry" where
  "reload_data e st =
     (case load_rack_data e st of
        (None, st') \<Rightarrow> (200, st')
      | (Some err, st') \<Rightarrow> (500, st'))"

subsection \<open>Example worlds\<close>

text \<open>
  \<open>no_files\<close>: neither folder exists. \<open>unreadable_folder\<close>: the sensor folder exists and cannot
  be listed. \<open>one_rack\<close>: a registry that holds one rack. \<open>twice_named\<close>: a rack file whose
  two rows name the same sensor.
\<close>

definition no_files :: env where
  "no_files =
     \<lparr>csv_folder_exists = False, csv_folder_listing = None, sensor_csv = (\<lambda>f. None),
      network_folder_exists = False, network_folder_listing = None, network_csv = (\<lambda>f. None),
      random_floats = constant_draws (1 / 2), str_of_float = example_str\<rparr>"

definition unreadable_folder :: env where
  "unreadable_folder = no_files\<lparr>csv_folder_exists := True\<rparr>"

definition empty_registry :: registry where
  "empty_registry =
     \<lparr>rack_files = [], rack_data = [], rack_metadata = [], sensor_categories = [],
      current_state = [], random_pos = 0\<rparr>"

definition twice_named :: rack_file where
  "twice_named =
     \<lparr>rf_filename = ''rack_1.csv'', rf_path = ''../../Data/Sensor_data/rack_1.csv'',
      rf_dataframe =
        \<lparr>df_columns = [''Sensor'', ''Value''],
         df_rows = [[Str ''CPU1 Temp'', Num (Finite 45)], [Str ''CPU1 Temp'', Num (Finite 50)]]\<rparr>,
      rf_all_files = [''rack_1.csv'']\<rparr>"

definition one_rack :: registry where
  "one_rack = update_rack no_files [] (empty_registry\<lparr>rack_files := [(1, twice_named)]\<rparr>) (1, twice_named)"

section \<open>Properties of the matcher\<close>







section \<open>\<open>float\<close> accepts every match of the number pattern\<close>












section \<open>Properties of the value parser\<close>







text \<open>The example of the specification.\<close>

lemma parse_example: "parse_sensor_value (Str ''42.5C'') = Finite (85 / 2)"
  by code_simp




section \<open>Properties of the rack rollups\<close>

subsection \<open>Substring tests\<close>


lemma contains_Nil: "contains [] s"
  by (cases s) auto

lemma starts_with_contains_suffix: "starts_with s (a @ b) \<Longrightarrow> contains b s"
proof (induction a arbitrary: s)
  case Nil
  then show ?case by (cases s; cases b) auto
next
  case (Cons x a)
  then show ?case by (cases s) auto
qed


lemma contains_suffix: "contains (a @ b) s \<Longrightarrow> contains b s"
proof (induction s)
  case Nil
  then show ?case by simp
next
  case (Cons c s)
  from Cons.prems have "starts_with (c # s) (a @ b) \<or> contains (a @ b) s" by simp
  then show ?case
  proof
    assume "starts_with (c # s) (a @ b)"
    then show ?thesis by (rule starts_with_contains_suffix)
  next
    assume "contains (a @ b) s"
    then have "contains b s" by (rule Cons.IH)
    then show ?thesis by simp
  qed
qed

subsection \<open>Rack status\<close>

lemma foldl_count_sensor:
  "foldl count_sensor (c, w, n) ss =
     (c + level_count Critical ss, w + level_count Warning ss, n + level_count Normal ss)"
proof (induction ss arbitrary: c w n)
  case Nil
  then show ?case by (simp add: level_count_def)
next
  case (Cons item ss)
  have step: "count_sensor (c, w, n) item =
      (case sensor_level (fst item) (snd item) of
         Critical \<Rightarrow> (c + 1, w, n) | Warning \<Rightarrow> (c, w + 1, n) | Normal \<Rightarrow> (c, w, n + 1))"
    by (simp add: count_sensor_def)
  have hd: "level_count l (item # ss) =
      (if sensor_level (fst item) (snd item) = l then 1 else 0) + level_count l ss" for l
    by (simp add: level_count_def)
  show ?case
    by (cases "sensor_level (fst item) (snd item)") (simp_all add: step hd Cons.IH)
qed

lemma status_counts_eq:
  "status_counts ss = (level_count Critical ss, level_count Warning ss, level_count Normal ss)"
  by (simp add: status_counts_def foldl_count_sensor)

lemma level_count_total:
  "level_count Critical ss + level_count Warning ss + level_count Normal ss = length ss"
proof (induction ss)
  case Nil
  then show ?case by (simp add: level_count_def)
next
  case (Cons item ss)
  then show ?case
    by (cases "sensor_level (fst item) (snd item)") (simp_all add: level_count_def)
qed

lemma calculate_rack_status_eq:
  "calculate_rack_status ss =
     (if ss = [] then ''unknown''
      else if 0 < level_count Critical ss
              \<and> (1 / 10 :: rat) < of_nat (level_count Critical ss) / of_nat (length ss)
           then ''critical''
      else if 0 < level_count Warning ss
              \<and> (2 / 10 :: rat) < of_nat (level_count Warning ss) / of_nat (length ss)
           then ''warning''
      else ''normal'')"
proof -
  have "calculate_rack_status ss =
     (let total_sensors = level_count Critical ss + level_count Warning ss + level_count Normal ss
      in if total_sensors = 0 then ''unknown''
         else if 0 < level_count Critical ss
                 \<and> (1 / 10 :: rat) < of_nat (level_count Critical ss) / of_nat total_sensors
              then ''critical''
         else if 0 < level_count Warning ss
                 \<and> (2 / 10 :: rat) < of_nat (level_count Warning ss) / of_nat total_sensors
              then ''warning''
         else ''normal'')"
    unfolding calculate_rack_status_def status_counts_eq by simp
  then show ?thesis unfolding level_count_total Let_def by simp
qed

text \<open>
  Claim C1. For a rack without sensors the status is \<open>unknown\<close>. Otherwise it is \<open>critical\<close>
  exactly when the critical count is positive and exceeds a tenth of the number of sensors,
  \<open>warning\<close> exactly when it is not critical and the warning count is positive and exceeds two
  tenths of the number of sensors, and \<open>normal\<close> in every remaining case. A rack with exactly
  10\% critical sensors is not critical. The counts are those of the counting loop; every
  sensor increments exactly one of them, so their total is the number of sensors. The quotient
  is compared exactly, which is what the floating-point comparison gives for every rack of
  fewer than \<open>2^50\<close> sensors.
\<close>
theorem calculate_rack_status_thresholds:
  "(ss = [] \<longrightarrow> calculate_rack_status ss = ''unknown'') \<and>
   (ss \<noteq> [] \<longrightarrow>
      (calculate_rack_status ss = ''critical'' \<longleftrightarrow>
         0 < level_count Critical ss
         \<and> (1 / 10 :: rat) < of_nat (level_count Critical ss) / of_nat (length ss)) \<and>
      (calculate_rack_status ss = ''warning'' \<longleftrightarrow>
         \<not> (0 < level_count Critical ss
            \<and> (1 / 10 :: rat) < of_nat (level_count Critical ss) / of_nat (length ss))
         \<and> 0 < level_count Warning ss
         \<and> (2 / 10 :: rat) < of_nat (level_count Warning ss) / of_nat (length ss)) \<and>
      (calculate_rack_status ss = ''normal'' \<longleftrightarrow>
         \<not> (0 < level_count Critical ss
            \<and> (1 / 10 :: rat) < of_nat (level_count Critical ss) / of_nat (length ss))
         \<and> \<not> (0 < level_count Warning ss
            \<and> (2 / 10 :: rat) < of_nat (level_count Warning ss) / of_nat (length ss))) \<and>
      calculate_rack_status ss \<in> {''critical'', ''warning'', ''normal''} \<and>
      (10 * level_count Critical ss = length ss \<longrightarrow> calculate_rack_status ss \<noteq> ''critical'')) \<and>
   status_counts ss = (level_count Critical ss, level_count Warning ss, level_count Normal ss) \<and>
   level_count Critical ss + level_count Warning ss + level_count Normal ss = length ss"
proof -
  have tenth: "\<not> (1 / 10 :: rat) < of_nat (level_count Critical ss) / of_nat (length ss)"
    if "10 * level_count Critical ss = length ss" "ss \<noteq> []"
  proof -
    from that have "(of_nat (length ss) :: rat) = 10 * of_nat (level_count Critical ss)"
      by (metis of_nat_mult of_nat_numeral)
    moreover have "level_count Critical ss \<noteq> 0"
    proof
      assume "level_count Critical ss = 0"
      with that(1) have "length ss = 0" by simp
      with that(2) show False by simp
    qed
    ultimately show ?thesis by simp
  qed
  have u: "ss = [] \<Longrightarrow> calculate_rack_status ss = ''unknown''"
    by (simp add: calculate_rack_status_eq)
  have v: "calculate_rack_status ss =
      (if 0 < level_count Critical ss
          \<and> (1 / 10 :: rat) < of_nat (level_count Critical ss) / of_nat (length ss)
       then ''critical''
       else if 0 < level_count Warning ss
               \<and> (2 / 10 :: rat) < of_nat (level_count Warning ss) / of_nat (length ss)
            then ''warning''
       else ''normal'')" if "ss \<noteq> []"
    using that by (simp add: calculate_rack_status_eq)
  show ?thesis
  proof (cases "ss = []")
    case True
    then show ?thesis using u by (simp add: status_counts_eq level_count_total)
  next
    case False
    note w = v[OF False]
    have 1: "calculate_rack_status ss = ''critical'' \<longleftrightarrow>
         0 < level_count Critical ss
         \<and> (1 / 10 :: rat) < of_nat (level_count Critical ss) / of_nat (length ss)"
      unfolding w by simp
    have 2: "calculate_rack_status ss = ''warning'' \<longleftrightarrow>
         \<not> (0 < level_count Critical ss
            \<and> (1 / 10 :: rat) < of_nat (level_count Critical ss) / of_nat (length ss))
         \<and> 0 < level_count Warning ss
         \<and> (2 / 10 :: rat) < of_nat (level_count Warning ss) / of_nat (length ss)"
      unfolding w by simp
    have 3: "calculate_rack_status ss = ''normal'' \<longleftrightarrow>
         \<not> (0 < level_count Critical ss
            \<and> (1 / 10 :: rat) < of_nat (level_count Critical ss) / of_nat (length ss))
         \<and> \<not> (0 < level_count Warning ss
            \<and> (2 / 10 :: rat) < of_nat (level_count Warning ss) / of_nat (length ss))"
      unfolding w by simp
    have 4: "calculate_rack_status ss \<in> {''critical'', ''warning'', ''normal''}"
      unfolding w by simp
    have 5: "10 * level_count Critical ss = length ss \<longrightarrow> calculate_rack_status ss \<noteq> ''critical''"
      using tenth[OF _ False] 1 by blast
    show ?thesis
      using False 1 2 3 4 5 status_counts_eq[of ss] level_count_total[of ss] by blast
  qed
qed

theorem calculate_rack_status_thresholds_witness:
  "calculate_rack_status [] = ''unknown'' \<and>
   level_count Critical (example_rack 1 0 9) = 1 \<and> length (example_rack 1 0 9) = 10 \<and>
   calculate_rack_status (example_rack 1 0 9) = ''normal'' \<and>
   level_count Critical (example_rack 2 0 9) = 2 \<and> length (example_rack 2 0 9) = 11 \<and>
   calculate_rack_status (example_rack 2 0 9) = ''critical'' \<and>
   level_count Critical (example_rack 0 3 9) = 0 \<and>
   level_count Warning (example_rack 0 3 9) = 3 \<and> length (example_rack 0 3 9) = 12 \<and>
   calculate_rack_status (example_rack 0 3 9) = ''warning''"
proof -
  have a: "level_count Critical (example_rack 1 0 9) = 1" "length (example_rack 1 0 9) = 10"
    "level_count Warning (example_rack 1 0 9) = 0"
    by code_simp+
  have b: "level_count Critical (example_rack 2 0 9) = 2" "length (example_rack 2 0 9) = 11"
    by code_simp+
  have c: "level_count Critical (example_rack 0 3 9) = 0"
    "level_count Warning (example_rack 0 3 9) = 3" "length (example_rack 0 3 9) = 12"
    by code_simp+
  have ne: "example_rack 1 0 9 \<noteq> []" "example_rack 2 0 9 \<noteq> []" "example_rack 0 3 9 \<noteq> []"
    using a(2) b(2) c(3) by auto
  from calculate_rack_status_thresholds[of "[]"]
  have 0: "calculate_rack_status [] = ''unknown''" by simp
  from calculate_rack_status_thresholds[of "example_rack 1 0 9"] ne(1)
  have "calculate_rack_status (example_rack 1 0 9) = ''normal'' \<longleftrightarrow>
         \<not> (0 < level_count Critical (example_rack 1 0 9)
            \<and> (1 / 10 :: rat) < of_nat (level_count Critical (example_rack 1 0 9))
                                  / of_nat (length (example_rack 1 0 9)))
         \<and> \<not> (0 < level_count Warning (example_rack 1 0 9)
            \<and> (2 / 10 :: rat) < of_nat (level_count Warning (example_rack 1 0 9))
                                  / of_nat (length (example_rack 1 0 9)))"
    by blast
  then have 1: "calculate_rack_status (example_rack 1 0 9) = ''normal''"
    unfolding a by simp
  from calculate_rack_status_thresholds[of "example_rack 2 0 9"] ne(2)
  have "calculate_rack_status (example_rack 2 0 9) = ''critical'' \<longleftrightarrow>
         0 < level_count Critical (example_rack 2 0 9)
         \<and> (1 / 10 :: rat) < of_nat (level_count Critical (example_rack 2 0 9))
                               / of_nat (length (example_rack 2 0 9))"
    by blast
  then have 2: "calculate_rack_status (example_rack 2 0 9) = ''critical''"
    unfolding b by simp
  from calculate_rack_status_thresholds[of "example_rack 0 3 9"] ne(3)
  have "calculate_rack_status (example_rack 0 3 9) = ''warning'' \<longleftrightarrow>
         \<not> (0 < level_count Critical (example_rack 0 3 9)
            \<and> (1 / 10 :: rat) < of_nat (level_count Critical (example_rack 0 3 9))
                                  / of_nat (length (example_rack 0 3 9)))
         \<and> 0 < level_count Warning (example_rack 0 3 9)
         \<and> (2 / 10 :: rat) < of_nat (level_count Warning (example_rack 0 3 9))
                               / of_nat (length (example_rack 0 3 9))"
    by blast
  then have 3: "calculate_rack_status (example_rack 0 3 9) = ''warning''"
    unfolding c by simp
  show ?thesis using 0 1 2 3 a b c by simp
qed

text \<open>
  Claim C2 says a sensor whose status text contains \<open>non-critical\<close> is counted as a warning.
  The counting loop tests \<open>'critical' in status\<close> first, and every text that contains
  \<open>non-critical\<close> contains \<open>critical\<close>: the sensor takes the critical branch, and the
  \<open>'non-critical' in status\<close> test of the second branch never decides anything.
\<close>
theorem non_critical_counted_critical:
  "contains ''non-critical'' (lower (r_status sensor_data))
   \<Longrightarrow> sensor_level sensor_name sensor_data = Critical
       \<and> count_sensor (c, w, n) (sensor_name, sensor_data) = (c + 1, w, n)"
proof -
  assume "contains ''non-critical'' (lower (r_status sensor_data))"
  then have "contains (''non-'' @ ''critical'') (lower (r_status sensor_data))" by simp
  then have "contains ''critical'' (lower (r_status sensor_data))" by (rule contains_suffix)
  then have "sensor_level sensor_name sensor_data = Critical"
    by (simp add: sensor_level_def Let_def)
  then show ?thesis by (simp add: count_sensor_def)
qed

theorem non_critical_counted_critical_witness:
  "contains ''non-critical'' (lower (r_status (sensor_reading (Finite 12) ''Non-Critical'' ''Volts'')))
   \<and> status_counts [(''12V'', sensor_reading (Finite 12) ''Non-Critical'' ''Volts'')] = (1, 0, 0)
   \<and> calculate_rack_status [(''12V'', sensor_reading (Finite 12) ''Non-Critical'' ''Volts'')]
       = ''critical''"
proof -
  have 1: "contains ''non-critical''
             (lower (r_status (sensor_reading (Finite 12) ''Non-Critical'' ''Volts'')))"
    by code_simp
  from non_critical_counted_critical[OF 1, of "''12V''" 0 0 0]
  have 2: "status_counts [(''12V'', sensor_reading (Finite 12) ''Non-Critical'' ''Volts'')]
             = (1, 0, 0)"
    by (simp add: status_counts_def)
  then have "calculate_rack_status [(''12V'', sensor_reading (Finite 12) ''Non-Critical'' ''Volts'')]
               = ''critical''"
    by (simp add: calculate_rack_status_def)
  with 1 2 show ?thesis by simp
qed

subsection \<open>Rack temperature\<close>





section \<open>Properties of the row loaders\<close>

subsection \<open>The value of a sensor row\<close>

lemma name_col_not_fallback_excluded:
  assumes "is_name_col c"
  shows "c \<noteq> ''Status''" "c \<noteq> ''Units''"
proof -
  have "\<not> is_name_col ''Status''" by code_simp
  with assms show "c \<noteq> ''Status''" by auto
  have "\<not> is_name_col ''Units''" by code_simp
  with assms show "c \<noteq> ''Units''" by auto
qed

lemma row_get_first: "row_get (c # cols) (x # row) c = x"
  by (simp add: row_get_def)

text \<open>
  Claim C5 says that without a value or reading column the value comes from the first column
  that no other role has claimed. The second loop of the code leaves out the columns labelled
  exactly \<open>Sensor\<close>, \<open>Status\<close> and \<open>Units\<close>, whereas the roles are found by keyword in the
  lower-cased label. So when the name column comes first and is labelled anything but
  \<open>Sensor\<close> (\<open>Name\<close>, \<open>sensor\<close>, \<open>Sensor Name\<close>), the value is parsed from the name cell
  itself: the row's name and its value are read from the same cell.
\<close>
theorem value_taken_from_name_column:
  assumes "is_name_col c" and "c \<noteq> ''Sensor''" and "List.find is_value_col (c # cols) = None"
  shows "row_sensor_name fs (c # cols) (x # row) = Some (strip (cell_str fs x))
         \<and> row_sensor_value (c # cols) (x # row) = parse_sensor_value x"
proof -
  have "is_fallback_col c"
    using assms(2) name_col_not_fallback_excluded[OF assms(1)] by (simp add: is_fallback_col_def)
  then have "List.find is_fallback_col (c # cols) = Some c" by simp
  then have "row_sensor_value (c # cols) (x # row) = parse_sensor_value x"
    using assms(3) by (simp add: row_sensor_value_def row_get_first del: List.find.simps)
  moreover have "List.find is_name_col (c # cols) = Some c" using assms(1) by simp
  then have "row_sensor_name fs (c # cols) (x # row) = Some (strip (cell_str fs x))"
    by (simp add: row_sensor_name_def row_get_first del: List.find.simps)
  ultimately show ?thesis by simp
qed

theorem value_taken_from_name_column_witness:
  "is_name_col ''Name'' \<and> List.find is_value_col [''Name'', ''Temp''] = None \<and>
   row_sensor_name example_str [''Name'', ''Temp''] [Str ''CPU1 Temp'', Num (Finite 45)]
     = Some ''CPU1 Temp'' \<and>
   row_sensor_value [''Name'', ''Temp''] [Str ''CPU1 Temp'', Num (Finite 45)] = Finite 1 \<and>
   row_entry example_str [''Name'', ''Temp''] [Str ''CPU1 Temp'', Num (Finite 45)]
     = Some (''CPU1 Temp'', sensor_reading (Finite 1) ''ok'' [])"
proof -
  have 1: "is_name_col ''Name''" by code_simp
  have 2: "''Name'' \<noteq> ''Sensor''" by simp
  have 3: "List.find is_value_col [''Name'', ''Temp''] = None" by code_simp
  have 4: "parse_sensor_value (Str ''CPU1 Temp'') = Finite 1" by code_simp
  have 5: "strip (cell_str example_str (Str ''CPU1 Temp'')) = ''CPU1 Temp''" by code_simp
  have 6: "row_entry example_str [''Name'', ''Temp''] [Str ''CPU1 Temp'', Num (Finite 45)]
             = Some (''CPU1 Temp'', sensor_reading (Finite 1) ''ok'' [])"
    by code_simp
  from value_taken_from_name_column[OF 1 2 3, of example_str "Str ''CPU1 Temp''" "[Num (Finite 45)]"]
  have "row_sensor_name example_str [''Name'', ''Temp''] [Str ''CPU1 Temp'', Num (Finite 45)]
          = Some ''CPU1 Temp''"
    and "row_sensor_value [''Name'', ''Temp''] [Str ''CPU1 Temp'', Num (Finite 45)] = Finite 1"
    unfolding 4 5 by simp_all
  with 1 3 6 show ?thesis by simp
qed

subsection \<open>Placeholder interfaces\<close>

lemma round_half_even_bounds:
  assumes "of_int a \<le> q" and "q \<le> of_int b"
  shows "a \<le> round_half_even q" and "round_half_even q \<le> b"
proof -
  have fl: "a \<le> \<lfloor>q\<rfloor>" using assms(1) by (simp add: le_floor_iff)
  have fb: "\<lfloor>q\<rfloor> \<le> b" using assms(2) by (simp add: floor_le_iff)
  have cases: "round_half_even q = \<lfloor>q\<rfloor> \<or> (round_half_even q = \<lfloor>q\<rfloor> + 1 \<and> of_int \<lfloor>q\<rfloor> < q)"
    by (auto simp: round_half_even_def Let_def)
  from cases fl show "a \<le> round_half_even q" by auto
  from cases show "round_half_even q \<le> b"
  proof
    assume "round_half_even q = \<lfloor>q\<rfloor>"
    with fb show ?thesis by simp
  next
    assume r: "round_half_even q = \<lfloor>q\<rfloor> + 1 \<and> of_int \<lfloor>q\<rfloor> < q"
    then have "(of_int \<lfloor>q\<rfloor> :: rat) < of_int b" using assms(2) by linarith
    then have "\<lfloor>q\<rfloor> < b" by simp
    with r show ?thesis by simp
  qed
qed

lemma py_round_2_bounds:
  assumes "10 \<le> t" and "t < 80"
  shows "10 \<le> py_round t 2" and "py_round t 2 \<le> 80"
proof -
  have a: "of_int 1000 \<le> t * 10 ^ 2" using assms(1) by simp
  have b: "t * 10 ^ 2 \<le> of_int 8000" using assms(2) by simp
  from round_half_even_bounds[OF a b]
  have "1000 \<le> round_half_even (t * 10 ^ 2)" "round_half_even (t * 10 ^ 2) \<le> 8000" by simp_all
  then have "(1000 :: rat) \<le> of_int (round_half_even (t * 10 ^ 2))"
    and "(of_int (round_half_even (t * 10 ^ 2)) :: rat) \<le> 8000"
    by (simp_all add: of_int_le_iff[symmetric] del: of_int_le_iff)
  then show "10 \<le> py_round t 2" and "py_round t 2 \<le> 80"
    by (simp_all add: py_round_def)
qed

lemma uniform_10_80:
  assumes "0 \<le> u" and "u < 1"
  shows "10 \<le> uniform 10 80 u" and "uniform 10 80 u < 80"
  using assms by (simp_all add: uniform_def)

lemma sample_interface_ok:
  assumes "t < 80"
  shows "sample_interface t = \<lparr>n_value = Finite (py_round t 2), n_status = ''ok'', n_units = ''Mbps''\<rparr>"
  using assms by (simp add: sample_interface_def)

lemma sample_interfaces_eq:
  "sample_interfaces rnd k =
     [(''eth1'', sample_interface (uniform 10 80 (rnd k))),
      (''eth2'', sample_interface (uniform 10 80 (rnd (k + 1)))),
      (''eth3'', sample_interface (uniform 10 80 (rnd (k + 2)))),
      (''eth4'', sample_interface (uniform 10 80 (rnd (k + 3))))]"
proof -
  have u: "[1 ..< 5] = [1, 2, 3, 4 :: nat]" by code_simp
  show ?thesis unfolding sample_interfaces_def u by (simp add: digits_def)
qed

text \<open>
  Claim C8 puts the throughput of a placeholder interface in \<open>[10, 80)\<close>. The draw is in that
  interval; the value stored is the draw rounded to two decimals, and a draw of \<open>79.995\<close> or
  more is stored as \<open>80.0\<close>.
\<close>
theorem placeholder_value_reaches_80:
  "fst (interface_rows example_str empty_table) = [] \<and>
   map_of (fst (fst (network_table example_str (constant_draws (99999 / 100000)) 0 empty_table)))
     ''eth1'' = Some \<lparr>n_value = Finite 80, n_status = ''ok'', n_units = ''Mbps''\<rparr> \<and>
   \<not> pf_less (Finite 80) (Finite 80)"
  by code_simp

text \<open>
  Claim C8, amended. When the rows of a network table give no interface, the loader makes
  exactly the four interfaces \<open>eth1\<close> to \<open>eth4\<close>, from four consecutive draws of the generator.
  Each draw \<open>t\<close> lies in \<open>[10, 80)\<close>; the interface stores \<open>t\<close> rounded to two decimals, which
  lies in the closed interval \<open>[10, 80]\<close>, the status \<open>ok\<close> (what either form of the thresholds
  gives below 80) and the units \<open>Mbps\<close>; the interface count is 4.
\<close>
theorem placeholder_interfaces:
  assumes "fst (interface_rows fs df) = []" and "\<forall>i. 0 \<le> rnd i \<and> rnd i < 1"
  shows "network_table fs rnd k df = ((sample_interfaces rnd k, 4), k + 4) \<and>
         map fst (sample_interfaces rnd k) = [''eth1'', ''eth2'', ''eth3'', ''eth4''] \<and>
         (\<forall>i < 4. 10 \<le> uniform 10 80 (rnd (k + i)) \<and> uniform 10 80 (rnd (k + i)) < 80 \<and>
            10 \<le> py_round (uniform 10 80 (rnd (k + i))) 2 \<and>
            py_round (uniform 10 80 (rnd (k + i))) 2 \<le> 80 \<and>
            snd (sample_interfaces rnd k ! i)
              = \<lparr>n_value = Finite (py_round (uniform 10 80 (rnd (k + i))) 2),
                 n_status = ''ok'', n_units = ''Mbps''\<rparr>)"
proof (intro conjI allI impI)
  show "network_table fs rnd k df = ((sample_interfaces rnd k, 4), k + 4)"
    using assms(1) by (cases "interface_rows fs df") (simp add: network_table_def)
  show "map fst (sample_interfaces rnd k) = [''eth1'', ''eth2'', ''eth3'', ''eth4'']"
    by (simp add: sample_interfaces_eq)
next
  fix i :: nat
  from assms(2) have u: "0 \<le> rnd (k + i)" "rnd (k + i) < 1" by simp_all
  show "10 \<le> uniform 10 80 (rnd (k + i))" using uniform_10_80(1)[OF u] .
  show lt: "uniform 10 80 (rnd (k + i)) < 80" using uniform_10_80(2)[OF u] .
  show "10 \<le> py_round (uniform 10 80 (rnd (k + i))) 2"
    using py_round_2_bounds(1)[OF uniform_10_80[OF u]] .
  show "py_round (uniform 10 80 (rnd (k + i))) 2 \<le> 80"
    using py_round_2_bounds(2)[OF uniform_10_80[OF u]] .
  assume "i < 4"
  then have "i = 0 \<or> i = 1 \<or> i = 2 \<or> i = 3" by arith
  then have "snd (sample_interfaces rnd k ! i) = sample_interface (uniform 10 80 (rnd (k + i)))"
    by (auto simp: sample_interfaces_eq)
  then show "snd (sample_interfaces rnd k ! i)
              = \<lparr>n_value = Finite (py_round (uniform 10 80 (rnd (k + i))) 2),
                 n_status = ''ok'', n_units = ''Mbps''\<rparr>"
    using sample_interface_ok[OF lt] by simp
qed

theorem placeholder_interfaces_witness:
  "fst (interface_rows example_str empty_table) = [] \<and>
   network_table example_str (constant_draws (1 / 2)) 7 empty_table
     = ((sample_interfaces (constant_draws (1 / 2)) 7, 4), 11) \<and>
   map fst (sample_interfaces (constant_draws (1 / 2)) 7) = [''eth1'', ''eth2'', ''eth3'', ''eth4''] \<and>
   snd (sample_interfaces (constant_draws (1 / 2)) 7 ! 2)
     = \<lparr>n_value = Finite 45, n_status = ''ok'', n_units = ''Mbps''\<rparr>"
proof -
  have 1: "fst (interface_rows example_str empty_table) = []" by code_simp
  have 2: "\<forall>i. 0 \<le> constant_draws (1 / 2) i \<and> constant_draws (1 / 2) i < 1"
    by (simp add: constant_draws_def)
  have 3: "py_round (uniform 10 80 (constant_draws (1 / 2) (7 + 2))) 2 = 45" by code_simp
  from placeholder_interfaces[OF 1 2, of 7]
  have a: "network_table example_str (constant_draws (1 / 2)) 7 empty_table
             = ((sample_interfaces (constant_draws (1 / 2)) 7, 4), 11)"
    and b: "map fst (sample_interfaces (constant_draws (1 / 2)) 7)
             = [''eth1'', ''eth2'', ''eth3'', ''eth4'']"
    and c: "\<forall>i < 4. snd (sample_interfaces (constant_draws (1 / 2)) 7 ! i)
              = \<lparr>n_value = Finite (py_round (uniform 10 80 (constant_draws (1 / 2) (7 + i))) 2),
                 n_status = ''ok'', n_units = ''Mbps''\<rparr>"
    by simp_all
  from c have "snd (sample_interfaces (constant_draws (1 / 2)) 7 ! 2)
              = \<lparr>n_value = Finite (py_round (uniform 10 80 (constant_draws (1 / 2) (7 + 2))) 2),
                 n_status = ''ok'', n_units = ''Mbps''\<rparr>"
    by simp
  then have d: "snd (sample_interfaces (constant_draws (1 / 2)) 7 ! 2)
     = \<lparr>n_value = Finite 45, n_status = ''ok'', n_units = ''Mbps''\<rparr>"
    unfolding 3 .
  from 1 a b d show ?thesis by simp
qed

section \<open>Properties of the registry\<close>

subsection \<open>Dictionaries\<close>

lemma store_all_Nil: "store_all d [] = d"
  by (simp add: store_all_def)

lemma store_all_Cons: "store_all d (kv # es) = store_all (AList.update (fst kv) (snd kv) d) es"
  by (simp add: store_all_def)

lemma store_all_keys: "fst ` set (store_all d es) = fst ` set d \<union> fst ` set es"
proof (induction es arbitrary: d)
  case Nil
  then show ?case by (simp add: store_all_Nil)
next
  case (Cons kv es)
  show ?case unfolding store_all_Cons Cons.IH AList.dom_update by auto
qed

lemma store_all_distinct: "distinct (map fst d) \<Longrightarrow> distinct (map fst (store_all d es))"
proof (induction es arbitrary: d)
  case Nil
  then show ?case by (simp add: store_all_Nil)
next
  case (Cons kv es)
  from Cons.prems have "distinct (map fst (AList.update (fst kv) (snd kv) d))"
    by (rule AList.distinct_update)
  then show ?case unfolding store_all_Cons by (rule Cons.IH)
qed

lemma store_all_map_of: "map_of (store_all d es) = map_of d ++ map_of (rev es)"
proof (induction es arbitrary: d)
  case Nil
  then show ?case by (simp add: store_all_Nil)
next
  case (Cons kv es)
  have "map_of (store_all d (kv # es)) = (map_of d)(fst kv \<mapsto> snd kv) ++ map_of (rev es)"
    unfolding store_all_Cons Cons.IH AList.update_conv' ..
  also have "\<dots> = map_of d ++ map_of (rev (kv # es))"
  proof (rule ext)
    fix x
    show "((map_of d)(fst kv \<mapsto> snd kv) ++ map_of (rev es)) x
            = (map_of d ++ map_of (rev (kv # es))) x"
      by (cases kv) (auto simp: map_add_def split: option.splits)
  qed
  finally show ?case .
qed

lemma update_subset: "set (AList.update k v d) \<subseteq> insert (k, v) (set d)"
  by (induction d) auto

lemma store_all_subset: "set (store_all d es) \<subseteq> set d \<union> set es"
proof (induction es arbitrary: d)
  case Nil
  then show ?case by (simp add: store_all_Nil)
next
  case (Cons kv es)
  have "set (store_all d (kv # es)) \<subseteq> set (AList.update (fst kv) (snd kv) d) \<union> set es"
    unfolding store_all_Cons by (rule Cons.IH)
  also have "\<dots> \<subseteq> insert (fst kv, snd kv) (set d) \<union> set es"
    using update_subset[of "fst kv" "snd kv" d] by auto
  finally show ?case by auto
qed

lemma update_fresh: "k \<notin> fst ` set d \<Longrightarrow> AList.update k v d = d @ [(k, v)]"
  by (induction d) auto

lemma store_all_fresh:
  "distinct (map fst (d @ es)) \<Longrightarrow> store_all d es = d @ es"
proof (induction es arbitrary: d)
  case Nil
  then show ?case by (simp add: store_all_Nil)
next
  case (Cons kv es)
  from Cons.prems have "fst kv \<notin> fst ` set d" by auto
  then have u: "AList.update (fst kv) (snd kv) d = d @ [kv]" by (simp add: update_fresh)
  from Cons.prems have "distinct (map fst ((d @ [kv]) @ es))" by simp
  then have "store_all (d @ [kv]) es = (d @ [kv]) @ es" by (rule Cons.IH)
  then show ?case unfolding store_all_Cons u by simp
qed

lemma store_all_empty_iff: "store_all d es = [] \<longleftrightarrow> d = [] \<and> es = []"
proof -
  have "fst ` set (store_all d es) = {} \<longleftrightarrow> fst ` set d = {} \<and> fst ` set es = {}"
    unfolding store_all_keys by simp
  then show ?thesis by simp
qed

lemma store_all_length_le:
  assumes "distinct (map fst d)"
  shows "length (store_all d es) \<le> length d + card (fst ` set es)"
proof -
  have "distinct (map fst (store_all d es))" using assms by (rule store_all_distinct)
  then have "length (store_all d es) = card (set (map fst (store_all d es)))"
    using distinct_card[of "map fst (store_all d es)"] by simp
  also have "\<dots> = card (fst ` set d \<union> fst ` set es)" by (simp add: store_all_keys)
  also have "\<dots> \<le> card (fst ` set d) + card (fst ` set es)" by (rule card_Un_le)
  also have "card (fst ` set d) = length d"
    using assms distinct_card[of "map fst d"] by simp
  finally show ?thesis .
qed

subsection \<open>The dictionary of a rack\<close>

lemma sensor_row_fold:
  "foldl (sensor_row fs cols) (d, n, cur) rows =
     (store_all d (List.map_filter (row_entry fs cols) rows),
      n + length (List.map_filter (row_entry fs cols) rows),
      store_all cur (map (\<lambda>kv. (fst kv, r_value (snd kv))) (List.map_filter (row_entry fs cols) rows)))"
proof (induction rows arbitrary: d n cur)
  case Nil
  then show ?case by (simp add: map_filter_simps store_all_Nil)
next
  case (Cons row rows)
  show ?case
  proof (cases "row_entry fs cols row")
    case None
    then have "sensor_row fs cols (d, n, cur) row = (d, n, cur)" by (simp add: sensor_row_def)
    then show ?thesis using None Cons.IH by (simp add: map_filter_simps)
  next
    case (Some kv)
    then have "sensor_row fs cols (d, n, cur) row =
        (AList.update (fst kv) (snd kv) d, n + 1, AList.update (fst kv) (r_value (snd kv)) cur)"
      by (cases kv) (simp add: sensor_row_def)
    then show ?thesis using Some Cons.IH by (simp add: map_filter_simps store_all_Cons)
  qed
qed

lemma sensor_rows_eq:
  "sensor_rows fs df cur =
     (store_all [] (usable_entries fs df), length (usable_entries fs df),
      store_all cur (map (\<lambda>kv. (fst kv, r_value (snd kv))) (usable_entries fs df)))"
  by (simp add: sensor_rows_def sensor_row_fold usable_entries_def)

lemma add_interface_fold:
  "foldl add_interface (d, n) ifs =
     (store_all d (map (\<lambda>item. (''Network_'' @ fst item, network_reading (fst item) (snd item))) ifs),
      n + length ifs)"
proof (induction ifs arbitrary: d n)
  case Nil
  then show ?case by (simp add: store_all_Nil)
next
  case (Cons item ifs)
  have "add_interface (d, n) item =
      (AList.update (''Network_'' @ fst item) (network_reading (fst item) (snd item)) d, n + 1)"
    by (simp add: add_interface_def)
  then show ?case using Cons.IH by (simp add: store_all_Cons)
qed

lemma rack_sensors_eq:
  "rack_sensors e network_data cur (rack_id, rack_info) =
     (store_all (store_all [] (usable_entries (str_of_float e) (rf_dataframe rack_info)))
        (network_entries network_data rack_id),
      length (usable_entries (str_of_float e) (rf_dataframe rack_info))
        + length (network_entries network_data rack_id),
      store_all cur (map (\<lambda>kv. (fst kv, r_value (snd kv)))
                       (usable_entries (str_of_float e) (rf_dataframe rack_info))))"
  by (cases "map_of network_data rack_id")
     (simp_all add: rack_sensors_def sensor_rows_eq network_entries_def add_interface_fold
        store_all_Nil)

lemma update_rack_snapshot:
  assumes "rack_sensors e network_data (current_state st) (rack_id, rack_info) = (d, n, cur)"
    and "d \<noteq> []"
  shows "map_of (rack_data (update_rack e network_data st (rack_id, rack_info))) rack_id
           = Some \<lparr>rk_sensors = d, rk_status = calculate_rack_status d,
                   rk_temperature = calculate_rack_temperature d, rk_sensor_count = n\<rparr>"
  using assms by (simp add: update_rack_def AList.update_conv')

text \<open>
  Claim C10. When two rows of a rack's table that are not skipped give the same sensor name,
  the rack gets a snapshot whose \<open>sensor_count\<close> is larger than the number of entries of its
  \<open>sensors\<close>. The count is the number of rows that are not skipped plus the number of
  interfaces of the rack's network file; the keys of \<open>sensors\<close> are distinct, and as a mapping
  \<open>sensors\<close> holds for every name the entry of the last row, or interface, that gave it.
\<close>
theorem duplicate_names_sensor_count:
  assumes "\<not> distinct (usable_names (str_of_float e) (rf_dataframe rack_info))"
  shows "\<exists>snap. map_of (rack_data (update_rack e network_data st (rack_id, rack_info))) rack_id
                  = Some snap \<and>
           length (rk_sensors snap) < rk_sensor_count snap \<and>
           rk_sensor_count snap
             = length (usable_names (str_of_float e) (rf_dataframe rack_info))
               + length (network_entries network_data rack_id) \<and>
           distinct (map fst (rk_sensors snap)) \<and>
           map_of (rk_sensors snap)
             = map_of (rev (usable_entries (str_of_float e) (rf_dataframe rack_info)))
               ++ map_of (rev (network_entries network_data rack_id))"
proof -
  let ?E = "usable_entries (str_of_float e) (rf_dataframe rack_info)"
  let ?N = "network_entries network_data rack_id"
  let ?d = "store_all (store_all [] ?E) ?N"
  let ?n = "length ?E + length ?N"
  let ?snap = "\<lparr>rk_sensors = ?d, rk_status = calculate_rack_status ?d,
                 rk_temperature = calculate_rack_temperature ?d, rk_sensor_count = ?n\<rparr>"
  from assms have nd: "\<not> distinct (map fst ?E)" by (simp add: usable_names_def)
  then have ne: "?E \<noteq> []" by auto
  then have dne: "?d \<noteq> []" by (simp add: store_all_empty_iff)
  have 1: "map_of (rack_data (update_rack e network_data st (rack_id, rack_info))) rack_id
             = Some ?snap"
    using update_rack_snapshot[OF rack_sensors_eq dne] .
  have d0: "distinct (map fst (store_all [] ?E))" by (rule store_all_distinct) simp
  have "length (store_all [] ?E) \<le> card (fst ` set ?E)"
    using store_all_length_le[of "[]" ?E] by simp
  moreover have "card (fst ` set ?E) < length ?E"
  proof -
    have "card (set (map fst ?E)) \<le> length (map fst ?E)" by (rule card_length)
    moreover have "card (set (map fst ?E)) \<noteq> length (map fst ?E)"
      using nd card_distinct by blast
    ultimately show ?thesis by simp
  qed
  moreover have "length ?d \<le> length (store_all [] ?E) + card (fst ` set ?N)"
    using store_all_length_le[OF d0] .
  moreover have "card (fst ` set ?N) \<le> length ?N"
    using card_length[of "map fst ?N"] by simp
  ultimately have 2: "length ?d < ?n" by linarith
  have 3: "distinct (map fst ?d)" using d0 by (rule store_all_distinct)
  have 4: "map_of ?d = map_of (rev ?E) ++ map_of (rev ?N)"
    by (simp add: store_all_map_of)
  show ?thesis using 1 2 3 4 by (simp add: usable_names_def)
qed

theorem duplicate_names_sensor_count_witness:
  "usable_names (str_of_float no_files) (rf_dataframe twice_named) = [''CPU1 Temp'', ''CPU1 Temp'']
   \<and> map_of (rack_data (update_rack no_files [] empty_registry (1, twice_named))) 1
       = Some \<lparr>rk_sensors = [(''CPU1 Temp'', sensor_reading (Finite 50) ''ok'' [])],
               rk_status = ''normal'', rk_temperature = 50, rk_sensor_count = 2\<rparr>
   \<and> length [(''CPU1 Temp'', sensor_reading (Finite 50) ''ok'' [])] < (2 :: nat)"
proof -
  have 1: "usable_names (str_of_float no_files) (rf_dataframe twice_named)
             = [''CPU1 Temp'', ''CPU1 Temp'']"
    by code_simp
  then have 2: "\<not> distinct (usable_names (str_of_float no_files) (rf_dataframe twice_named))"
    by simp
  have 3: "map_of (rack_data (update_rack no_files [] empty_registry (1, twice_named))) 1
       = Some \<lparr>rk_sensors = [(''CPU1 Temp'', sensor_reading (Finite 50) ''ok'' [])],
               rk_status = ''normal'', rk_temperature = 50, rk_sensor_count = 2\<rparr>"
    by code_simp
  from duplicate_names_sensor_count[OF 2, of "[]" empty_registry 1]
  have "length [(''CPU1 Temp'', sensor_reading (Finite 50) ''ok'' [])] < (2 :: nat)"
    unfolding 3 by simp
  with 1 3 show ?thesis by simp
qed

end
